theory Spec2Isabelle
  imports Complex_Main "HOL-Library.Word"
begin

section \<open>Tensors, errors and the store\<close>

text \<open>
  The utilities of \<^verbatim>\<open>utils/util.py\<close> compute on float tensors. The embedding
  works over the real numbers: every arithmetic operation is the exact one, so a statement
  proved here is a statement about the algorithm under exact arithmetic and says nothing
  about rounding. A two-dimensional tensor is a list of rows, a box is one row of four
  coordinates.
\<close>

datatype error = IndexError | RuntimeError | ValueError

type_synonym tensor2 = "real list list"

type_synonym addr = nat

text \<open>
  \<^verbatim>\<open>xy2wh\<close> and \<^verbatim>\<open>wh2xy\<close> clone their argument and assign to the
  columns of the clone. Whether the argument is left alone depends on the clone being a new
  object, so both are modelled on a store of tensor objects: the object at address \<open>a\<close>
  is the \<open>a\<close>-th entry of the store, and a new object is appended at the end.
\<close>

type_synonym store = "tensor2 list"

definition clone :: "tensor2 \<Rightarrow> store \<Rightarrow> addr \<times> store" where
  "clone t s = (length s, s @ [t])"

definition col :: "nat \<Rightarrow> tensor2 \<Rightarrow> real list" where
  "col j t = map (\<lambda>r. r ! j) t"

definition set_col :: "nat \<Rightarrow> real list \<Rightarrow> tensor2 \<Rightarrow> tensor2" where
  "set_col j vs t = map (\<lambda>(r, v). r[j := v]) (zip t vs)"

definition read_col :: "store \<Rightarrow> addr \<Rightarrow> nat \<Rightarrow> real list" where
  "read_col s a j = col j (s ! a)"

definition write_col :: "addr \<Rightarrow> nat \<Rightarrow> real list \<Rightarrow> store \<Rightarrow> store" where
  "write_col a j vs s = s[a := set_col j vs (s ! a)]"

section \<open>Box conversions\<close>

text \<open>
  \<^verbatim>\<open>
  def xy2wh(x):
      y = x.clone() if isinstance(x, torch.Tensor) else numpy.copy(x)
      y[..., 0] = (x[..., 0] + x[..., 2]) / 2  # x center
      y[..., 1] = (x[..., 1] + x[..., 3]) / 2  # y center
      y[..., 2] = x[..., 2] - x[..., 0]  # width
      y[..., 3] = x[..., 3] - x[..., 1]  # height
      return y
  \<close>
  Each assignment reads the columns of \<open>x\<close> in the store as it is at that moment and
  writes one column of \<open>y\<close>. A tensor with fewer than four columns makes the first
  out-of-range column index raise; a tensor object that does not exist is outside the
  model (\<open>RuntimeError\<close>). The model is the two-dimensional case, the one
  \<^verbatim>\<open>wh2xy\<close>'s indexing \<^verbatim>\<open>x[:, 0]\<close> is written for.
\<close>

definition xy2wh :: "addr \<Rightarrow> store \<Rightarrow> error + (addr \<times> store)" where
  "xy2wh x s =
     (if length s \<le> x then Inl RuntimeError
      else if list_ex (\<lambda>r. length r < 4) (s ! x) then Inl IndexError
      else
            let (y, s0) = clone (s ! x) s;
                s1 = write_col y 0 (map (\<lambda>(a, b). (a + b) / 2) (zip (read_col s0 x 0) (read_col s0 x 2))) s0;
                s2 = write_col y 1 (map (\<lambda>(a, b). (a + b) / 2) (zip (read_col s1 x 1) (read_col s1 x 3))) s1;
                s3 = write_col y 2 (map (\<lambda>(a, b). a - b) (zip (read_col s2 x 2) (read_col s2 x 0))) s2;
                s4 = write_col y 3 (map (\<lambda>(a, b). a - b) (zip (read_col s3 x 3) (read_col s3 x 1))) s3
            in Inr (y, s4))"

text \<open>
  \<^verbatim>\<open>
  def wh2xy(x):
      y = x.clone() if isinstance(x, torch.Tensor) else numpy.copy(x)
      y[:, 0] = x[:, 0] - x[:, 2] / 2  # top left x
      y[:, 1] = x[:, 1] - x[:, 3] / 2  # top left y
      y[:, 2] = x[:, 0] + x[:, 2] / 2  # bottom right x
      y[:, 3] = x[:, 1] + x[:, 3] / 2  # bottom right y
      return y
  \<close>
\<close>

definition wh2xy :: "addr \<Rightarrow> store \<Rightarrow> error + (addr \<times> store)" where
  "wh2xy x s =
     (if length s \<le> x then Inl RuntimeError
      else if list_ex (\<lambda>r. length r < 4) (s ! x) then Inl IndexError
      else
            let (y, s0) = clone (s ! x) s;
                s1 = write_col y 0 (map (\<lambda>(a, b). a - b / 2) (zip (read_col s0 x 0) (read_col s0 x 2))) s0;
                s2 = write_col y 1 (map (\<lambda>(a, b). a - b / 2) (zip (read_col s1 x 1) (read_col s1 x 3))) s1;
                s3 = write_col y 2 (map (\<lambda>(a, b). a + b / 2) (zip (read_col s2 x 0) (read_col s2 x 2))) s2;
                s4 = write_col y 3 (map (\<lambda>(a, b). a + b / 2) (zip (read_col s3 x 1) (read_col s3 x 3))) s3
            in Inr (y, s4))"

text \<open>The same conversions on one row, as a value: what the store versions leave in the clone.\<close>

definition xy2wh_row :: "real list \<Rightarrow> real list" where
  "xy2wh_row r = r[0 := (r ! 0 + r ! 2) / 2, 1 := (r ! 1 + r ! 3) / 2, 2 := r ! 2 - r ! 0, 3 := r ! 3 - r ! 1]"

definition wh2xy_row :: "real list \<Rightarrow> real list" where
  "wh2xy_row r = r[0 := r ! 0 - r ! 2 / 2, 1 := r ! 1 - r ! 3 / 2, 2 := r ! 0 + r ! 2 / 2, 3 := r ! 1 + r ! 3 / 2]"

text \<open>\<^verbatim>\<open>wh2xy\<close> as NMS uses it, on a tensor value (the clone is the result).\<close>

definition wh2xy_t :: "tensor2 \<Rightarrow> tensor2" where
  "wh2xy_t t = map wh2xy_row t"

definition xy2wh_t :: "tensor2 \<Rightarrow> tensor2" where
  "xy2wh_t t = map xy2wh_row t"

subsection \<open>What the conversions leave in the store\<close>

lemma set_col_zip:
  "length t' = length t \<Longrightarrow>
   set_col j (map (\<lambda>(a, b). f a b) (zip (col p t) (col q t))) t' =
   map (\<lambda>(r', r). r'[j := f (r ! p) (r ! q)]) (zip t' t)"
  by (rule nth_equalityI) (simp_all add: set_col_def col_def)

lemma xy2wh_rows:
  "map (\<lambda>(r', r). r'[3 := r ! 3 - r ! Suc 0])
     (zip (map (\<lambda>(r', r). r'[2 := r ! 2 - r ! 0])
       (zip (map (\<lambda>(r', r). r'[Suc 0 := (r ! Suc 0 + r ! 3) / 2])
         (zip (map (\<lambda>(r', r). r'[0 := (r ! 0 + r ! 2) / 2]) (zip t t)) t)) t)) t)
   = map xy2wh_row t"
  by (rule nth_equalityI) (simp_all add: xy2wh_row_def)

lemma wh2xy_rows:
  "map (\<lambda>(r', r). r'[3 := r ! Suc 0 + r ! 3 / 2])
     (zip (map (\<lambda>(r', r). r'[2 := r ! 0 + r ! 2 / 2])
       (zip (map (\<lambda>(r', r). r'[Suc 0 := r ! Suc 0 - r ! 3 / 2])
         (zip (map (\<lambda>(r', r). r'[0 := r ! 0 - r ! 2 / 2]) (zip t t)) t)) t)) t)
   = map wh2xy_row t"
  by (rule nth_equalityI) (simp_all add: wh2xy_row_def)

lemma xy2wh_result:
  assumes "x < length s" "list_all (\<lambda>r. 4 \<le> length r) (s ! x)"
  shows "xy2wh x s = Inr (length s, s @ [xy2wh_t (s ! x)])"
proof -
  have guard: "\<not> list_ex (\<lambda>r. length r < 4) (s ! x)"
    using assms(2) by (auto simp: list_all_iff list_ex_iff)
  show ?thesis
    using assms(1) guard
    by (simp add: xy2wh_def clone_def read_col_def write_col_def set_col_zip Let_def
        nth_append xy2wh_rows xy2wh_t_def)
qed

lemma wh2xy_result:
  assumes "x < length s" "list_all (\<lambda>r. 4 \<le> length r) (s ! x)"
  shows "wh2xy x s = Inr (length s, s @ [wh2xy_t (s ! x)])"
proof -
  have guard: "\<not> list_ex (\<lambda>r. length r < 4) (s ! x)"
    using assms(2) by (auto simp: list_all_iff list_ex_iff)
  show ?thesis
    using assms(1) guard
    by (simp add: wh2xy_def clone_def read_col_def write_col_def set_col_zip Let_def
        nth_append wh2xy_rows wh2xy_t_def)
qed

lemma length_xy2wh_row [simp]: "length (xy2wh_row r) = length r"
  by (simp add: xy2wh_row_def)

lemma length_wh2xy_row [simp]: "length (wh2xy_row r) = length r"
  by (simp add: wh2xy_row_def)

lemma four_columns:
  assumes "4 \<le> length r"
  obtains a b c d rest where "r = a # b # c # d # rest"
  using assms by (auto simp: numeral_eq_Suc Suc_le_length_iff)

lemma wh2xy_xy2wh_row:
  assumes "4 \<le> length r"
  shows "wh2xy_row (xy2wh_row r) = r"
proof -
  obtain a b c d rest where "r = a # b # c # d # rest"
    using assms by (rule four_columns)
  then show ?thesis
    by (simp add: wh2xy_row_def xy2wh_row_def numeral_eq_Suc field_simps)
qed

lemma xy2wh_wh2xy_row:
  assumes "4 \<le> length r"
  shows "xy2wh_row (wh2xy_row r) = r"
proof -
  obtain a b c d rest where "r = a # b # c # d # rest"
    using assms by (rule four_columns)
  then show ?thesis
    by (simp add: wh2xy_row_def xy2wh_row_def numeral_eq_Suc field_simps)
qed

lemma wh2xy_xy2wh_t: "list_all (\<lambda>r. 4 \<le> length r) t \<Longrightarrow> wh2xy_t (xy2wh_t t) = t"
  by (induction t) (simp_all add: wh2xy_t_def xy2wh_t_def wh2xy_xy2wh_row)

lemma xy2wh_wh2xy_t: "list_all (\<lambda>r. 4 \<le> length r) t \<Longrightarrow> xy2wh_t (wh2xy_t t) = t"
  by (induction t) (simp_all add: wh2xy_t_def xy2wh_t_def xy2wh_wh2xy_row)

lemma rows4_xy2wh_t: "list_all (\<lambda>r. 4 \<le> length r) t \<Longrightarrow> list_all (\<lambda>r. 4 \<le> length r) (xy2wh_t t)"
  by (simp add: list_all_iff xy2wh_t_def)

lemma rows4_wh2xy_t: "list_all (\<lambda>r. 4 \<le> length r) t \<Longrightarrow> list_all (\<lambda>r. 4 \<le> length r) (wh2xy_t t)"
  by (simp add: list_all_iff wh2xy_t_def)

text \<open>
  C8. Converting a tensor of corner-form boxes to centre form and back, or the other way
  round, gives the tensor one started from, exactly (the arithmetic is that of the reals).
  Both conversions are pure: each returns a new object \<open>y\<close>, and the argument
  \<open>x\<close> holds in the store after each call what it held before; the second call
  leaves the first call's result \<open>y\<close> alone as well.
\<close>

theorem box_conversion_round_trip:
  assumes "x < length s" and "list_all (\<lambda>r. 4 \<le> length r) (s ! x)"
  shows "(\<exists>y s1 z s2. xy2wh x s = Inr (y, s1) \<and> wh2xy y s1 = Inr (z, s2)
            \<and> s2 ! z = s ! x \<and> s1 ! x = s ! x \<and> s2 ! x = s ! x \<and> s2 ! y = s1 ! y)
       \<and> (\<exists>y s1 z s2. wh2xy x s = Inr (y, s1) \<and> xy2wh y s1 = Inr (z, s2)
            \<and> s2 ! z = s ! x \<and> s1 ! x = s ! x \<and> s2 ! x = s ! x \<and> s2 ! y = s1 ! y)"
proof (intro conjI)
  let ?s1 = "s @ [xy2wh_t (s ! x)]"
  have a: "xy2wh x s = Inr (length s, ?s1)"
    using assms by (rule xy2wh_result)
  have "wh2xy (length s) ?s1 = Inr (length ?s1, ?s1 @ [wh2xy_t (?s1 ! length s)])"
    by (rule wh2xy_result) (simp_all add: rows4_xy2wh_t assms(2))
  then have b: "wh2xy (length s) ?s1 = Inr (Suc (length s), ?s1 @ [s ! x])"
    by (simp add: wh2xy_xy2wh_t assms(2))
  show "\<exists>y s1 z s2. xy2wh x s = Inr (y, s1) \<and> wh2xy y s1 = Inr (z, s2)
            \<and> s2 ! z = s ! x \<and> s1 ! x = s ! x \<and> s2 ! x = s ! x \<and> s2 ! y = s1 ! y"
    using a b assms(1) by (simp add: nth_append)
next
  let ?s1 = "s @ [wh2xy_t (s ! x)]"
  have a: "wh2xy x s = Inr (length s, ?s1)"
    using assms by (rule wh2xy_result)
  have "xy2wh (length s) ?s1 = Inr (length ?s1, ?s1 @ [xy2wh_t (?s1 ! length s)])"
    by (rule xy2wh_result) (simp_all add: rows4_wh2xy_t assms(2))
  then have b: "xy2wh (length s) ?s1 = Inr (Suc (length s), ?s1 @ [s ! x])"
    by (simp add: xy2wh_wh2xy_t assms(2))
  show "\<exists>y s1 z s2. wh2xy x s = Inr (y, s1) \<and> xy2wh y s1 = Inr (z, s2)
            \<and> s2 ! z = s ! x \<and> s1 ! x = s ! x \<and> s2 ! x = s ! x \<and> s2 ! y = s1 ! y"
    using a b assms(1) by (simp add: nth_append)
qed

theorem box_conversion_round_trip_witness:
  "(0::nat) < length [[[10, 10, 50, 50 :: real]]]
   \<and> list_all (\<lambda>r. 4 \<le> length r) ([[[10, 10, 50, 50 :: real]]] ! 0)
   \<and> (\<exists>y s1 z s2. xy2wh 0 [[[10, 10, 50, 50]]] = Inr (y, s1) \<and> wh2xy y s1 = Inr (z, s2)
         \<and> s2 ! z = [[10, 10, 50, 50]] \<and> s1 ! 0 = [[10, 10, 50, 50]] \<and> s2 ! 0 = [[10, 10, 50, 50]]
         \<and> s2 ! y = s1 ! y)
   \<and> (\<exists>y s1 z s2. wh2xy 0 [[[10, 10, 50, 50]]] = Inr (y, s1) \<and> xy2wh y s1 = Inr (z, s2)
         \<and> s2 ! z = [[10, 10, 50, 50]] \<and> s1 ! 0 = [[10, 10, 50, 50]] \<and> s2 ! 0 = [[10, 10, 50, 50]]
         \<and> s2 ! y = s1 ! y)"
  using box_conversion_round_trip [of 0 "[[[10, 10, 50, 50]]]"] by simp

section \<open>Overlap of two boxes\<close>

type_synonym box = "real \<times> real \<times> real \<times> real"

definition clamp0 :: "real \<Rightarrow> real" where
  "clamp0 x = max x 0"


text \<open>
  \<^verbatim>\<open>
  def compute_iou(box1, box2, eps=1e-7):
      b1_x1, b1_y1, b1_x2, b1_y2 = box1.chunk(4, -1)
      b2_x1, b2_y1, b2_x2, b2_y2 = box2.chunk(4, -1)
      w1, h1 = b1_x2 - b1_x1, b1_y2 - b1_y1 + eps
      w2, h2 = b2_x2 - b2_x1, b2_y2 - b2_y1 + eps
      inter = (b1_x2.minimum(b2_x2) - b1_x1.maximum(b2_x1)).clamp(0) * \
              (b1_y2.minimum(b2_y2) - b1_y1.maximum(b2_y1)).clamp(0)
      union = w1 * h1 + w2 * h2 - inter + eps
      iou = inter / union
      cw = b1_x2.maximum(b2_x2) - b1_x1.minimum(b2_x1)
      ch = b1_y2.maximum(b2_y2) - b1_y1.minimum(b2_y1)
      c2 = cw ** 2 + ch ** 2 + eps
      rho2 = ((b2_x1 + b2_x2 - b1_x1 - b1_x2) ** 2 + (b2_y1 + b2_y2 - b1_y1 - b1_y2) ** 2) / 4
      v = (4 / math.pi ** 2) * (torch.atan(w2 / h2) - torch.atan(w1 / h1)).pow(2)
      with torch.no_grad():
          alpha = v / (v - iou + (1 + eps))
      return iou - (rho2 / c2 + v * alpha)  # CIoU
  \<close>
  The function is elementwise over the rows of its two arguments; the model is one pair of
  rows. All callers leave \<open>eps\<close> at its default. The value returned is the complete IoU:
  the plain ratio \<open>iou\<close> minus the centre-distance and aspect-ratio penalties. Division
  by zero, which is \<open>0\<close> in HOL and \<open>inf\<close> or \<open>nan\<close> in the source, does not
  occur for boxes with \<open>x1 \<le> x2\<close> and \<open>y1 \<le> y2\<close>: every denominator is then at
  least \<open>eps\<close>.
\<close>

definition iou_inter :: "box \<Rightarrow> box \<Rightarrow> real" where
  "iou_inter box1 box2 =
     (case box1 of (b1_x1, b1_y1, b1_x2, b1_y2) \<Rightarrow>
      case box2 of (b2_x1, b2_y1, b2_x2, b2_y2) \<Rightarrow>
        clamp0 (min b1_x2 b2_x2 - max b1_x1 b2_x1) * clamp0 (min b1_y2 b2_y2 - max b1_y1 b2_y1))"



text \<open>A box in corner form: the first corner is not beyond the second.\<close>

definition corner_form :: "box \<Rightarrow> bool" where
  "corner_form b = (case b of (x1, y1, x2, y2) \<Rightarrow> x1 \<le> x2 \<and> y1 \<le> y2)"

text \<open>Two boxes that share no area: one lies beside, above or below the other.\<close>

definition non_overlapping :: "box \<Rightarrow> box \<Rightarrow> bool" where
  "non_overlapping box1 box2 =
     (case box1 of (b1_x1, b1_y1, b1_x2, b1_y2) \<Rightarrow>
      case box2 of (b2_x1, b2_y1, b2_x2, b2_y2) \<Rightarrow>
        b1_x2 \<le> b2_x1 \<or> b2_x2 \<le> b1_x1 \<or> b1_y2 \<le> b2_y1 \<or> b2_y2 \<le> b1_y1)"

subsection \<open>Properties of the overlap\<close>

lemma iou_inter_simps:
  "iou_inter (b1_x1, b1_y1, b1_x2, b1_y2) (b2_x1, b2_y1, b2_x2, b2_y2) =
     clamp0 (min b1_x2 b2_x2 - max b1_x1 b2_x1) * clamp0 (min b1_y2 b2_y2 - max b1_y1 b2_y1)"
  by (simp add: iou_inter_def)



lemma corner_form_simps [simp]: "corner_form (x1, y1, x2, y2) = (x1 \<le> x2 \<and> y1 \<le> y2)"
  by (simp add: corner_form_def)

lemma non_overlapping_simps [simp]:
  "non_overlapping (b1_x1, b1_y1, b1_x2, b1_y2) (b2_x1, b2_y1, b2_x2, b2_y2) =
     (b1_x2 \<le> b2_x1 \<or> b2_x2 \<le> b1_x1 \<or> b1_y2 \<le> b2_y1 \<or> b2_y2 \<le> b1_y1)"
  by (simp add: non_overlapping_def)


lemma iou_inter_sym: "iou_inter a b = iou_inter b a"
  by (cases a; cases b) (simp add: iou_inter_simps min.commute max.commute)



text \<open>The plain ratio lies in the half-open unit interval.\<close>

lemma clamp0_nonneg: "0 \<le> clamp0 x"
  by (simp add: clamp0_def)













section \<open>Distribution focal loss\<close>






text \<open>
  \<^verbatim>\<open>t.view(-1)\<close> lays the rows of a tensor end to end (\<open>concat\<close>);
  \<^verbatim>\<open>v.view(t.shape)\<close> cuts a flat tensor into rows as long as those of \<open>t\<close>.
\<close>

fun view_as :: "'a list \<Rightarrow> 'b list list \<Rightarrow> 'a list list" where
  "view_as xs [] = []"
| "view_as xs (r # rs) = take (length r) xs # view_as (drop (length r) xs) rs"







subsection \<open>The loss is the two-bin formula\<close>



lemma length_view_as [simp]: "length (view_as xs T) = length T"
  by (induction T arbitrary: xs) simp_all











section \<open>Average precision\<close>

text \<open>
  The numpy operations \<^verbatim>\<open>compute_ap\<close> is built from, on lists.
  \<^verbatim>\<open>numpy.argsort\<close> is modelled as a stable sort; numpy's default sort does not
  promise an order among equal keys.
\<close>

definition argsort :: "real list \<Rightarrow> nat list" where
  "argsort ks = map snd (sort_key fst (zip ks [0..<length ks]))"

definition take_rows :: "'a list \<Rightarrow> nat list \<Rightarrow> 'a list" where
  "take_rows xs idx = map (\<lambda>k. xs ! k) idx"

definition select_rows :: "'a list \<Rightarrow> bool list \<Rightarrow> 'a list" where
  "select_rows xs keep = map fst (filter snd (zip xs keep))"

text \<open>\<^verbatim>\<open>numpy.unique(a, return_counts=True)\<close>: the sorted distinct values and how often each occurs.\<close>

definition unique :: "real list \<Rightarrow> real list" where
  "unique xs = sort (remdups xs)"

definition unique_counts :: "real list \<Rightarrow> nat list" where
  "unique_counts xs = map (\<lambda>c. length (filter (\<lambda>v. v = c) xs)) (unique xs)"

fun cumsum_from :: "real \<Rightarrow> real list \<Rightarrow> real list" where
  "cumsum_from a [] = []"
| "cumsum_from a (x # xs) = (a + x) # cumsum_from (a + x) xs"

definition cumsum :: "real list \<Rightarrow> real list" where
  "cumsum xs = cumsum_from 0 xs"

fun max_accumulate_from :: "real \<Rightarrow> real list \<Rightarrow> real list" where
  "max_accumulate_from m [] = []"
| "max_accumulate_from m (x # xs) = max m x # max_accumulate_from (max m x) xs"

definition maximum_accumulate :: "real list \<Rightarrow> real list" where
  "maximum_accumulate xs = (case xs of [] \<Rightarrow> [] | x # rest \<Rightarrow> x # max_accumulate_from x rest)"

text \<open>\<^verbatim>\<open>numpy.linspace(0, 1, n)\<close>, exactly.\<close>

definition linspace01 :: "nat \<Rightarrow> real list" where
  "linspace01 n = map (\<lambda>k. real k / real (n - 1)) [0..<n]"

text \<open>
  \<^verbatim>\<open>numpy.interp(x, xp, fp)\<close> for increasing \<open>xp\<close>: below the first point the value
  is \<open>fp[0]\<close>, above the last it is \<open>fp[-1]\<close>; otherwise numpy finds the last \<open>j\<close>
  with \<open>xp[j] \<le> x\<close> and returns \<open>fp[j]\<close> when \<open>j\<close> is the last index or
  \<open>xp[j] = x\<close>, and the value on the line through the points \<open>j\<close> and \<open>j + 1\<close>
  otherwise.
\<close>

fun interp_search :: "real \<Rightarrow> (real \<times> real) list \<Rightarrow> real" where
  "interp_search x [] = 0"
| "interp_search x [(x0, y0)] = y0"
| "interp_search x ((x0, y0) # (x1, y1) # rest) =
     (if x < x1 then (if x0 = x then y0 else (y1 - y0) / (x1 - x0) * (x - x0) + y0)
      else interp_search x ((x1, y1) # rest))"

definition interp_at :: "real \<Rightarrow> real list \<Rightarrow> real list \<Rightarrow> real" where
  "interp_at x xp fp =
     (if x < hd xp then hd fp else if last xp < x then last fp else interp_search x (zip xp fp))"

definition interp :: "real list \<Rightarrow> real list \<Rightarrow> real list \<Rightarrow> real list" where
  "interp xs xp fp = map (\<lambda>x. interp_at x xp fp) xs"

text \<open>\<^verbatim>\<open>numpy.trapz(y, x)\<close>: the trapezoidal rule.\<close>

fun trapz :: "real list \<Rightarrow> real list \<Rightarrow> real" where
  "trapz (y0 # y1 # ys) (x0 # x1 # xs) = (x1 - x0) * (y1 + y0) / 2 + trapz (y1 # ys) (x1 # xs)"
| "trapz ys xs = 0"

definition mean :: "real list \<Rightarrow> real" where
  "mean xs = sum_list xs / real (length xs)"

definition eps_ap :: real where
  "eps_ap = 1 / 10 ^ 16"

text \<open>
  \<^verbatim>\<open>
  def compute_ap(tp, conf, pred_cls, target_cls, eps=1e-16):
      i = numpy.argsort(-conf)
      tp, conf, pred_cls = tp[i], conf[i], pred_cls[i]
      unique_classes, nt = numpy.unique(target_cls, return_counts=True)
      nc = unique_classes.shape[0]
      ...
      ap = numpy.zeros((nc, tp.shape[1]))
      for ci, c in enumerate(unique_classes):
          i = pred_cls == c
          nl = nt[ci]  # number of labels
          no = i.sum()  # number of outputs
          if no == 0 or nl == 0:
              continue
          fpc = (1 - tp[i]).cumsum(0)
          tpc = tp[i].cumsum(0)
          recall = tpc / (nl + eps)  # recall curve
          ...
          precision = tpc / (tpc + fpc)  # precision curve
          ...
          for j in range(tp.shape[1]):
              m_rec = numpy.concatenate(([0.0], recall[:, j], [1.0]))
              m_pre = numpy.concatenate(([1.0], precision[:, j], [0.0]))
              m_pre = numpy.flip(numpy.maximum.accumulate(numpy.flip(m_pre)))
              x = numpy.linspace(0, 1, 101)  # 101-point interp (COCO)
              ap[ci, j] = numpy.trapz(numpy.interp(x, m_rec, m_pre), x)  # integrate
      ...
      ap50, ap = ap[:, 0], ap.mean(1)  # AP@0.5, AP@0.5:0.95
      ...
      map50, mean_ap = ap50.mean(), ap.mean()
      return tp, fp, m_pre, m_rec, map50, mean_ap
  \<close>
  \<open>tp\<close> is a boolean matrix with one row per detection and \<open>ncols = tp.shape[1]\<close>
  columns, one per threshold. The model computes the matrix \<open>ap\<close> and the two numbers
  \<open>map50\<close> and \<open>mean_ap\<close> of the result; the four other components (the operating
  point chosen from the smoothed F1 curve) do not enter them and are left out.
\<close>

definition ap_column :: "bool list \<Rightarrow> nat \<Rightarrow> real" where
  "ap_column tps nl =
     (let fpc = cumsum (map (\<lambda>b. 1 - of_bool b) tps);
          tpc = cumsum (map of_bool tps);
          recall = map (\<lambda>t. t / (real nl + eps_ap)) tpc;
          precision = map (\<lambda>(t, f). t / (t + f)) (zip tpc fpc);
          m_rec = [0] @ recall @ [1];
          m_pre = [1] @ precision @ [0];
          m_pre = rev (maximum_accumulate (rev m_pre));
          x = linspace01 101
      in trapz (interp x m_rec m_pre) x)"

definition ap_class :: "bool list list \<Rightarrow> real list \<Rightarrow> nat \<Rightarrow> real \<Rightarrow> nat \<Rightarrow> real list" where
  "ap_class tp pred_cls ncols c nl =
     (let i = map (\<lambda>v. v = c) pred_cls;
          no = length (filter id i)
      in if no = 0 \<or> nl = 0 then replicate ncols 0
         else map (\<lambda>j. ap_column (map (\<lambda>r. r ! j) (select_rows tp i)) nl) [0..<ncols])"

definition ap_table :: "bool list list \<Rightarrow> nat \<Rightarrow> real list \<Rightarrow> real list \<Rightarrow> real list \<Rightarrow> real list list" where
  "ap_table tp ncols conf pred_cls target_cls =
     (let i = argsort (map uminus conf);
          tp = take_rows tp i;
          pred_cls = take_rows pred_cls i
      in map (\<lambda>(c, nl). ap_class tp pred_cls ncols c nl) (zip (unique target_cls) (unique_counts target_cls)))"

definition compute_ap :: "bool list list \<Rightarrow> nat \<Rightarrow> real list \<Rightarrow> real list \<Rightarrow> real list \<Rightarrow> real \<times> real" where
  "compute_ap tp ncols conf pred_cls target_cls =
     (let ap = ap_table tp ncols conf pred_cls target_cls;
          ap50 = map (\<lambda>r. r ! 0) ap;
          ap_mean = map mean ap
      in (mean ap50, mean ap_mean))"

subsection \<open>A class whose detections are all true positives\<close>

lemma cumsum_from_ones: "cumsum_from a (replicate n 1) = map (\<lambda>k. a + real k) [1..<Suc n]"
proof (induction n arbitrary: a)
  case 0
  then show ?case by simp
next
  case (Suc n)
  have "[1..<Suc (Suc n)] = 1 # map Suc [1..<Suc n]"
    by (metis One_nat_def map_Suc_upt upt_conv_Cons zero_less_Suc Suc_less_eq)
  then show ?case
    by (simp add: Suc.IH o_def add.assoc del: upt_Suc)
qed

lemma cumsum_from_zeros: "cumsum_from a (replicate n 0) = replicate n a"
  by (induction n arbitrary: a) simp_all

lemma max_accumulate_from_ones: "0 \<le> m \<Longrightarrow> m \<le> 1 \<Longrightarrow> max_accumulate_from m (replicate n 1) = replicate n 1"
  by (induction n arbitrary: m) (simp_all add: max_def)

lemma upt_shift: "map f [0..<Suc n] = f 0 # map (\<lambda>k. f (Suc k)) [0..<n]"
proof -
  have "[0..<Suc n] = 0 # map Suc [0..<n]"
    by (simp add: upt_conv_Cons map_Suc_upt del: upt_Suc)
  then show ?thesis by (simp add: o_def del: upt_Suc)
qed

lemma trapz_ones_then_zero:
  assumes "0 < N"
  shows "trapz (replicate (Suc m) 1 @ [0]) (map (\<lambda>k. real (a + k) / N) [0..<Suc (Suc m)])
       = real m / N + 1 / (2 * N)"
proof (induction m arbitrary: a)
  case 0
  have "map (\<lambda>k. real (a + k) / N) [0..<Suc (Suc 0)] = [real a / N, real (a + 1) / N]"
    by (simp add: upt_rec)
  then show ?case by (simp add: diff_divide_distrib [symmetric])
next
  case (Suc m)
  have "map (\<lambda>k. real (a + k) / N) [0..<Suc (Suc (Suc m))]
      = real a / N # real (a + 1) / N # map (\<lambda>k. real (Suc a + Suc k) / N) [0..<Suc m]"
    by (simp add: upt_shift [of _ "Suc (Suc m)"] upt_shift [of _ "Suc m"] del: upt_Suc)
  moreover have "map (\<lambda>k. real (Suc a + k) / N) [0..<Suc (Suc m)]
      = real (a + 1) / N # map (\<lambda>k. real (Suc a + Suc k) / N) [0..<Suc m]"
    by (simp add: upt_shift [of _ "Suc m"] del: upt_Suc)
  ultimately have "trapz (replicate (Suc (Suc m)) 1 @ [0]) (map (\<lambda>k. real (a + k) / N) [0..<Suc (Suc (Suc m))])
      = (real (a + 1) / N - real a / N) * (1 + 1) / 2
        + trapz (replicate (Suc m) 1 @ [0]) (map (\<lambda>k. real (Suc a + k) / N) [0..<Suc (Suc m)])"
    by (simp del: upt_Suc)
  also have "\<dots> = 1 / N + (real m / N + 1 / (2 * N))"
    unfolding Suc.IH by (simp add: diff_divide_distrib [symmetric])
  also have "\<dots> = real (Suc m) / N + 1 / (2 * N)"
    by (simp add: add_divide_distrib)
  finally show ?case .
qed

lemma trapz_101: "trapz (replicate 100 1 @ [0]) (linspace01 101) = 199 / 200"
proof -
  have "trapz (replicate (Suc 99) 1 @ [0]) (map (\<lambda>k. real (0 + k) / 100) [0..<Suc (Suc 99)])
      = real 99 / 100 + 1 / (2 * 100)"
    by (rule trapz_ones_then_zero) simp
  then show ?thesis by (simp add: linspace01_def)
qed

lemma interp_search_flat:
  assumes "\<forall>p \<in> set (p0 # cs). snd p = c" and "fst p0 \<le> x" and "x < fst (last (p0 # cs))"
  shows "interp_search x ((p0 # cs) @ rest) = c"
  using assms
proof (induction cs arbitrary: p0)
  case Nil
  then show ?case by simp
next
  case (Cons p1 cs)
  obtain x0 y0 where p0: "p0 = (x0, y0)" by (cases p0)
  obtain x1 y1 where p1: "p1 = (x1, y1)" by (cases p1)
  have y: "y0 = c" "y1 = c" using Cons.prems(1) p0 p1 by simp_all
  show ?case
  proof (cases "x < x1")
    case True
    then show ?thesis by (simp add: p0 p1 y)
  next
    case False
    then have "interp_search x ((p0 # p1 # cs) @ rest) = interp_search x ((p1 # cs) @ rest)"
      by (simp add: p0 p1)
    moreover have "interp_search x ((p1 # cs) @ rest) = c"
      using Cons.prems False by (intro Cons.IH) (simp_all add: p1)
    ultimately show ?thesis by simp
  qed
qed

lemma interp_search_end:
  assumes "ps \<noteq> []" and "\<forall>p \<in> set (tl ps). fst p \<le> x"
  shows "interp_search x ps = snd (last ps)"
  using assms by (induction x ps rule: interp_search.induct) auto

lemma zip_replicate_right: "length xs = n \<Longrightarrow> zip xs (replicate n v) = map (\<lambda>x. (x, v)) xs"
  by (rule nth_equalityI) simp_all

lemma ap_column_all_true:
  assumes "0 < n"
  shows "ap_column (replicate n True) n = 199 / 200"
proof -
  define d where "d = real n + eps_ap"
  have d: "real n < d" "0 < d" by (simp_all add: d_def eps_ap_def add_pos_pos assms)
  define recall where "recall = map (\<lambda>k. real k / d) [1..<Suc n]"
  define cs where "cs = map (\<lambda>k. (real k / d, 1 :: real)) [1..<Suc n]"
  define m_rec where "m_rec = [0] @ recall @ [1]"
  define m_pre where "m_pre = replicate (Suc n) 1 @ [0 :: real]"
  have tpc: "cumsum (map of_bool (replicate n True)) = map real [1..<Suc n]"
    by (simp add: cumsum_def cumsum_from_ones del: upt_Suc)
  have fpc: "cumsum (map (\<lambda>b. 1 - of_bool b) (replicate n True)) = replicate n 0"
    by (simp add: cumsum_def cumsum_from_zeros)
  have prec: "map (\<lambda>(t, f). t / (t + f)) (zip (map real [1..<Suc n]) (replicate n 0)) = replicate n (1 :: real)"
    by (rule nth_equalityI) (simp_all del: upt_Suc)
  have env: "rev (maximum_accumulate (rev ([1] @ replicate n 1 @ [0]))) = m_pre"
    by (simp add: m_pre_def maximum_accumulate_def max_accumulate_from_ones replicate_append_same)
  have rec: "[0] @ map (\<lambda>t. t / (real n + eps_ap)) (map real [1..<Suc n]) @ [1] = m_rec"
    by (simp add: m_rec_def recall_def d_def o_def del: upt_Suc)
  have col: "ap_column (replicate n True) n = trapz (interp (linspace01 101) m_rec m_pre) (linspace01 101)"
    unfolding ap_column_def Let_def tpc fpc prec env rec ..
  have zipped: "zip m_rec m_pre = ((0, 1) # cs) @ [(1, 0)]"
    by (simp add: m_rec_def m_pre_def recall_def cs_def zip_replicate_right zip_map1 o_def del: upt_Suc)
  have ends: "hd m_rec = 0" "last m_rec = 1"
    by (simp_all add: m_rec_def)
  have last_cs: "last ((0, 1) # cs) = (real n / d, 1)"
    using assms by (simp add: cs_def last_map del: upt_Suc)
  have cs_le: "\<forall>p \<in> set cs. fst p \<le> 1"
    using d by (auto simp: cs_def)
  have inner: "interp_at (real k / 100) m_rec m_pre = 1" if "k < 100" for k
  proof -
    have "real k / 100 \<le> 99 / 100" using that by simp
    also have "99 / 100 < real n / d"
      using d assms by (simp add: field_simps d_def eps_ap_def)
    finally have lt: "real k / 100 < fst (last ((0, 1) # cs))" unfolding last_cs by simp
    have "interp_search (real k / 100) (((0, 1) # cs) @ [(1, 0)]) = 1"
      using lt by (intro interp_search_flat) (auto simp: cs_def)
    moreover have "\<not> 1 < real k / 100" using that by simp
    ultimately show ?thesis
      unfolding interp_at_def zipped ends by simp
  qed
  have outer: "interp_at 1 m_rec m_pre = 0"
  proof -
    have "interp_search 1 (((0, 1) # cs) @ [(1, 0)]) = snd (last (((0, 1) # cs) @ [(1, 0)]))"
      using cs_le by (intro interp_search_end) auto
    then show ?thesis unfolding interp_at_def zipped ends by simp
  qed
  have "[0..<101] = [0..<100] @ [100 :: nat]"
    using upt_Suc_append [of 0 100] by simp
  then have "linspace01 101 = map (\<lambda>k. real k / 100) [0..<100] @ [1]"
    by (simp add: linspace01_def)
  then have "interp (linspace01 101) m_rec m_pre
           = map (\<lambda>k. interp_at (real k / 100) m_rec m_pre) [0..<100] @ [0]"
    by (simp add: interp_def o_def outer)
  also have "map (\<lambda>k. interp_at (real k / 100) m_rec m_pre) [0..<100] = map (\<lambda>k. 1) [0..<100]"
    by (rule map_cong [OF refl]) (simp add: inner)
  also have "map (\<lambda>k. 1 :: real) [0..<100] = replicate 100 1"
    by (simp add: map_replicate_const)
  finally show ?thesis
    unfolding col by (simp only: trapz_101)
qed

text \<open>Sorting by confidence permutes the detections; the rows of one class stay the same rows.\<close>

lemma snd_zip_upt: "map snd (zip ks [0..<length ks]) = [0..<length ks]"
  by (simp add: map_snd_zip)

lemma set_argsort: "set (argsort ks) = {0..<length ks}"
proof -
  have "set (argsort ks) = set (map snd (zip ks [0..<length ks]))"
    unfolding argsort_def set_map set_sort ..
  then show ?thesis unfolding snd_zip_upt by simp
qed

lemma length_filter_argsort:
  "length (filter P (argsort ks)) = length (filter P [0..<length ks])"
proof -
  have "filter P (argsort ks) = map snd (sort_key fst (filter (P \<circ> snd) (zip ks [0..<length ks])))"
    by (simp add: argsort_def filter_map filter_sort)
  then have "length (filter P (argsort ks)) = length (map snd (filter (P \<circ> snd) (zip ks [0..<length ks])))"
    by simp
  also have "map snd (filter (P \<circ> snd) (zip ks [0..<length ks])) = filter P (map snd (zip ks [0..<length ks]))"
    by (rule filter_map [symmetric])
  finally show ?thesis unfolding snd_zip_upt .
qed

lemma length_filter_index:
  "length (filter (\<lambda>k. xs ! k = c) [0..<length xs]) = length (filter (\<lambda>v. v = c) xs)"
proof -
  have "filter (\<lambda>v. v = c) (map (\<lambda>k. xs ! k) [0..<length xs]) = map (\<lambda>k. xs ! k) (filter (\<lambda>k. xs ! k = c) [0..<length xs])"
    by (simp add: filter_map o_def)
  then have "length (filter (\<lambda>v. v = c) (map (\<lambda>k. xs ! k) [0..<length xs])) = length (filter (\<lambda>k. xs ! k = c) [0..<length xs])"
    by simp
  then show ?thesis by (simp add: map_nth)
qed

lemma select_rows_map: "select_rows (map f idx) (map g idx) = map f (filter g idx)"
  by (induction idx) (simp_all add: select_rows_def)

lemma filter_id_map: "length (filter id (map g idx)) = length (filter g idx)"
  by (induction idx) simp_all

lemma ap_class_all_true:
  assumes len: "length conf = length tp" "length pred_cls = length tp"
    and j: "j < ncols"
    and pos: "0 < nl"
    and cnt: "length (filter (\<lambda>v. v = c) pred_cls) = nl"
    and tps: "list_all (\<lambda>(row, cl). cl = c \<longrightarrow> row ! j) (zip tp pred_cls)"
  shows "ap_class (take_rows tp (argsort (map uminus conf)))
                  (take_rows pred_cls (argsort (map uminus conf))) ncols c nl ! j = 199 / 200"
proof -
  define order where "order = argsort (map uminus conf)"
  define hit where "hit = (\<lambda>k. pred_cls ! k = c)"
  have ord: "set order = {0..<length tp}"
    by (simp add: order_def set_argsort len)
  have n_hit: "length (filter hit order) = nl"
    using cnt length_filter_index [of pred_cls c]
    by (simp add: order_def hit_def length_filter_argsort len)
  have keep: "map (\<lambda>v. v = c) (take_rows pred_cls order) = map hit order"
    by (simp add: take_rows_def hit_def)
  have sel: "select_rows (take_rows tp order) (map hit order) = map (\<lambda>k. tp ! k) (filter hit order)"
    unfolding take_rows_def by (rule select_rows_map)
  have "tp ! k ! j" if "k \<in> set (filter hit order)" for k
  proof -
    have "k < length tp" "pred_cls ! k = c" using that ord by (auto simp: hit_def)
    then show ?thesis
      using tps len by (auto simp: list_all_length)
  qed
  then have "map (\<lambda>r. r ! j) (map (\<lambda>k. tp ! k) (filter hit order)) = map (\<lambda>k. True) (filter hit order)"
    by (simp add: o_def)
  then have column: "map (\<lambda>r. r ! j) (map (\<lambda>k. tp ! k) (filter hit order)) = replicate nl True"
    by (simp add: map_replicate_const n_hit)
  have no: "length (filter id (map hit order)) = nl"
    by (simp add: filter_id_map n_hit)
  have "ap_class (take_rows tp order) (take_rows pred_cls order) ncols c nl ! j
      = ap_column (replicate nl True) nl"
    unfolding ap_class_def Let_def keep no sel using pos j column by simp
  then show ?thesis
    unfolding order_def using ap_column_all_true [OF pos] by simp
qed

lemma unique_index:
  assumes "c \<in> set target_cls"
  obtains ci where "ci < length (unique target_cls)" and "unique target_cls ! ci = c"
proof -
  have "c \<in> set (unique target_cls)" using assms by (simp add: unique_def)
  then show ?thesis using that by (auto simp: in_set_conv_nth)
qed

lemma ap_table_perfect_class:
  assumes len: "length conf = length tp" "length pred_cls = length tp"
    and j: "j < ncols"
    and c: "c \<in> set target_cls"
    and cnt: "length (filter (\<lambda>v. v = c) pred_cls) = length (filter (\<lambda>v. v = c) target_cls)"
    and tps: "list_all (\<lambda>(row, cl). cl = c \<longrightarrow> row ! j) (zip tp pred_cls)"
  shows "\<exists>ci. ci < length (unique target_cls) \<and> unique target_cls ! ci = c
            \<and> ap_table tp ncols conf pred_cls target_cls ! ci ! j = 199 / 200"
proof -
  obtain ci where ci: "ci < length (unique target_cls)" "unique target_cls ! ci = c"
    using c by (rule unique_index)
  define nl where "nl = length (filter (\<lambda>v. v = c) target_cls)"
  have pos: "0 < nl"
  proof -
    have "c \<in> set (filter (\<lambda>v. v = c) target_cls)" using c by simp
    then show ?thesis unfolding nl_def by (rule length_pos_if_in_set)
  qed
  have entry: "zip (unique target_cls) (unique_counts target_cls) ! ci = (c, nl)"
    using ci by (simp add: unique_counts_def nl_def)
  have "ap_table tp ncols conf pred_cls target_cls ! ci
      = ap_class (take_rows tp (argsort (map uminus conf)))
                 (take_rows pred_cls (argsort (map uminus conf))) ncols c nl"
    unfolding ap_table_def Let_def using ci entry by (simp add: unique_counts_def)
  moreover have "ap_class (take_rows tp (argsort (map uminus conf)))
                 (take_rows pred_cls (argsort (map uminus conf))) ncols c nl ! j = 199 / 200"
    using len j pos cnt tps unfolding nl_def by (intro ap_class_all_true) simp_all
  ultimately show ?thesis using ci by auto
qed

lemma compute_ap_single: "compute_ap [[True]] 1 [9 / 10] [0] [0] = (199 / 200, 199 / 200)"
proof -
  have "ap_column (replicate 1 True) 1 = 199 / 200"
    by (rule ap_column_all_true) simp
  then have col: "ap_column [True] (Suc 0) = 199 / 200" by simp
  have "ap_table [[True]] 1 [9 / 10] [0] [0] = [[199 / 200]]"
    by (simp add: ap_table_def argsort_def take_rows_def unique_def unique_counts_def
        ap_class_def select_rows_def col)
  then show ?thesis by (simp add: compute_ap_def mean_def)
qed

text \<open>
  C3, as the code has it. When every detection of a class is a true positive in a threshold
  column and the class has as many detections as labels, the average precision of that class
  and threshold is \<open>199 / 200 = 0.995\<close>: the precision envelope ends in the sentinel
  \<open>(recall 1, precision 0)\<close>, so the last of the \<open>101\<close> sample points contributes
  \<open>0\<close>. In particular one ground truth with one identical prediction at confidence
  \<open>0.9\<close> yields \<open>AP50 = 0.995\<close>.
\<close>

theorem compute_ap_perfect_predictions:
  assumes "length conf = length tp" and "length pred_cls = length tp"
    and "j < ncols"
    and "c \<in> set target_cls"
    and "length (filter (\<lambda>v. v = c) pred_cls) = length (filter (\<lambda>v. v = c) target_cls)"
    and "list_all (\<lambda>(row, cl). cl = c \<longrightarrow> row ! j) (zip tp pred_cls)"
  shows "(\<exists>ci. ci < length (unique target_cls) \<and> unique target_cls ! ci = c
            \<and> ap_table tp ncols conf pred_cls target_cls ! ci ! j = 199 / 200)
       \<and> compute_ap [[True]] 1 [9 / 10] [0] [0] = (199 / 200, 199 / 200)"
  using ap_table_perfect_class [OF assms] compute_ap_single by simp

theorem compute_ap_perfect_predictions_witness:
  "length [9 / 10, 8 / 10 :: real] = length [[True, False], [True, True]]
   \<and> length [0, 0 :: real] = length [[True, False], [True, True]]
   \<and> (0 :: nat) < 2
   \<and> (0 :: real) \<in> set [0, 0, 1]
   \<and> length (filter (\<lambda>v. v = 0) [0, 0 :: real]) = length (filter (\<lambda>v. v = 0) [0, 0, 1 :: real])
   \<and> list_all (\<lambda>(row, cl). cl = 0 \<longrightarrow> row ! 0) (zip [[True, False], [True, True]] [0, 0 :: real])
   \<and> (\<exists>ci. ci < length (unique [0, 0, 1]) \<and> unique [0, 0, 1] ! ci = 0
          \<and> ap_table [[True, False], [True, True]] 2 [9 / 10, 8 / 10] [0, 0] [0, 0, 1] ! ci ! 0 = 199 / 200)"
  using compute_ap_perfect_predictions
    [of "[9 / 10, 8 / 10]" "[[True, False], [True, True]]" "[0, 0]" 0 2 0 "[0, 0, 1]"]
  by simp

text \<open>
  The scenario of the specification: the code returns \<open>0.995\<close> where the claim says
  \<open>1.0\<close>.
\<close>

theorem compute_ap_counterexample:
  "fst (compute_ap [[True]] 1 [9 / 10] [0] [0]) = 199 / 200
   \<and> fst (compute_ap [[True]] 1 [9 / 10] [0] [0]) \<noteq> 1"
  unfolding compute_ap_single by simp

section \<open>Matching predictions to ground truth\<close>

definition KPT_SIGMA :: "real list" where
  "KPT_SIGMA = map (\<lambda>s. s / 10)
     [26 / 100, 25 / 100, 25 / 100, 35 / 100, 35 / 100, 79 / 100, 79 / 100, 72 / 100, 72 / 100,
      62 / 100, 62 / 100, 107 / 100, 107 / 100, 87 / 100, 87 / 100, 89 / 100, 89 / 100]"

text \<open>
  The similarity of ground truth \<open>t\<close> (a row \<open>[cls, x1, y1, x2, y2]\<close>) and prediction
  \<open>o\<close> (a row \<open>[x1, y1, x2, y2, conf, cls, ...]\<close>), box branch:
  \<^verbatim>\<open>
  (a1, a2) = target[:, 1:].unsqueeze(1).chunk(2, 2)
  (b1, b2) = output[:, :4].unsqueeze(0).chunk(2, 2)
  intersection = (torch.min(a2, b2) - torch.max(a1, b1)).clamp(0).prod(2)
  iou = intersection / ((a2 - a1).prod(2) + (b2 - b1).prod(2) - intersection + 1e-7)
  \<close>
\<close>

definition box_similarity :: "real list \<Rightarrow> real list \<Rightarrow> real" where
  "box_similarity t ob =
     (let intersection = clamp0 (min (t ! 3) (ob ! 2) - max (t ! 1) (ob ! 0))
                       * clamp0 (min (t ! 4) (ob ! 3) - max (t ! 2) (ob ! 1))
      in intersection / ((t ! 3 - t ! 1) * (t ! 4 - t ! 2) + (ob ! 2 - ob ! 0) * (ob ! 3 - ob ! 1)
                         - intersection + 1 / 10 ^ 7))"

text \<open>
  Keypoint branch, for the keypoints \<open>tk\<close> of the ground truth and \<open>pk\<close> of the
  prediction (rows \<open>[x, y, v]\<close>):
  \<^verbatim>\<open>
  area = xy2wh(target[:, 1:])[:, 2:].prod(1) * 0.53
  d_x = (true_kpt[:, None, :, 0] - pred_kpt[..., 0]) ** 2
  d_y = (true_kpt[:, None, :, 1] - pred_kpt[..., 1]) ** 2
  sigma = torch.tensor(KPT_SIGMA, ...)
  kpt_mask = true_kpt[..., 2] != 0
  e = (d_x + d_y) / (2 * sigma) ** 2 / (area[:, None, None] + 1e-7) / 2
  iou = (torch.exp(-e) * kpt_mask[:, None]).sum(-1) / (kpt_mask.sum(-1)[:, None] + 1e-7)
  \<close>
\<close>

definition kpt_similarity :: "real list \<Rightarrow> real list list \<Rightarrow> real list list \<Rightarrow> real" where
  "kpt_similarity t tk pk =
     (let area = (t ! 3 - t ! 1) * (t ! 4 - t ! 2) * (53 / 100);
          e = map (\<lambda>((a, b), sigma).
                     ((a ! 0 - b ! 0) ^ 2 + (a ! 1 - b ! 1) ^ 2) / (2 * sigma) ^ 2 / (area + 1 / 10 ^ 7) / 2)
                  (zip (zip tk pk) KPT_SIGMA);
          kpt_mask = map (\<lambda>a. of_bool (a ! 2 \<noteq> 0)) tk
      in sum_list (map (\<lambda>(ev, m). exp (- ev) * m) (zip e kpt_mask)) / (sum_list kpt_mask + 1 / 10 ^ 7))"

text \<open>
  \<^verbatim>\<open>numpy.unique(a, return_index=True)[1]\<close>: for every distinct value, in increasing
  order of the values, the index of its first occurrence.
\<close>

definition first_index :: "nat \<Rightarrow> nat list \<Rightarrow> nat" where
  "first_index v xs = length (takeWhile (\<lambda>x. x \<noteq> v) xs)"

definition unique_index :: "nat list \<Rightarrow> nat list" where
  "unique_index xs = map (\<lambda>v. first_index v xs) (sort (remdups xs))"

type_synonym match = "nat \<times> nat \<times> real"

text \<open>
  One threshold of the loop. \<open>torch.where\<close> lists the pairs row by row.
  \<^verbatim>\<open>
  x = torch.where((iou >= iou_v[i]) & (target[:, 0:1] == output[:, 5]))
  if x[0].shape[0]:
      matches = torch.cat((torch.stack(x, 1), iou[x[0], x[1]][:, None]), 1).cpu().numpy()
      if x[0].shape[0] > 1:
          matches = matches[matches[:, 2].argsort()[::-1]]
          matches = matches[numpy.unique(matches[:, 1], return_index=True)[1]]
          matches = matches[numpy.unique(matches[:, 0], return_index=True)[1]]
      correct[matches[:, 1].astype(int), i] = True
  \<close>
\<close>

definition candidate_matches :: "real list list \<Rightarrow> real list list \<Rightarrow> real list list \<Rightarrow> real \<Rightarrow> match list" where
  "candidate_matches iou target output thr =
     concat (map (\<lambda>n. map (\<lambda>m. (n, m, iou ! n ! m))
                          (filter (\<lambda>m. thr \<le> iou ! n ! m \<and> target ! n ! 0 = output ! m ! 5) [0..<length output]))
                 [0..<length target])"

definition accepted_matches :: "match list \<Rightarrow> match list" where
  "accepted_matches matches =
     (if 1 < length matches then
        let matches = take_rows matches (rev (argsort (map (\<lambda>(l, d, s). s) matches)));
            matches = take_rows matches (unique_index (map (\<lambda>(l, d, s). d) matches));
            matches = take_rows matches (unique_index (map (\<lambda>(l, d, s). l) matches))
        in matches
      else matches)"

definition mark_correct :: "bool list list \<Rightarrow> nat list \<Rightarrow> nat \<Rightarrow> bool list list" where
  "mark_correct correct ds i = fold (\<lambda>d c. c[d := (c ! d)[i := True]]) ds correct"

definition compute_metric_from :: "real list list \<Rightarrow> real list list \<Rightarrow> real list list \<Rightarrow> real list \<Rightarrow> bool list list" where
  "compute_metric_from iou output target iou_v =
     fold (\<lambda>i correct.
             mark_correct correct
               (map (\<lambda>(l, d, s). d) (accepted_matches (candidate_matches iou target output (iou_v ! i)))) i)
          [0..<length iou_v]
          (replicate (length output) (replicate (length iou_v) False))"

definition compute_metric ::
  "real list list \<Rightarrow> real list list \<Rightarrow> real list \<Rightarrow> (real list list list \<times> real list list list) option
     \<Rightarrow> bool list list" where
  "compute_metric output target iou_v kpts =
     (let iou = (case kpts of
                   Some (pred_kpt, true_kpt) \<Rightarrow>
                     map (\<lambda>(t, tk). map (\<lambda>pk. kpt_similarity t tk pk) pred_kpt) (zip target true_kpt)
                 | None \<Rightarrow> map (\<lambda>t. map (\<lambda>ob. box_similarity t ob) output) target)
      in compute_metric_from iou output target iou_v)"

text \<open>
  C4 on a concrete input. One ground truth of class \<open>0\<close> with box \<open>(0, 0, 10, 10)\<close> and
  two predictions of class \<open>0\<close>: prediction \<open>0\<close> with box \<open>(0, 0, 10, 6)\<close>, similarity
  about \<open>0.6\<close>, and prediction \<open>1\<close> with box \<open>(0, 0, 10, 9)\<close>, similarity about
  \<open>0.9\<close>. Both pass the threshold \<open>0.5\<close>. After the sort by similarity the first
  \<^verbatim>\<open>numpy.unique\<close> puts the matches back in the order of the prediction index, so the
  second keeps, for the ground truth, the match with the lowest prediction index: prediction
  \<open>0\<close> is marked correct and prediction \<open>1\<close>, the better one, is not.
\<close>

theorem compute_metric_keeps_first_prediction:
  "box_similarity [0, 0, 0, 10, 10] [0, 0, 10, 6, 9 / 10, 0] = 600000000 / 1000000001
   \<and> box_similarity [0, 0, 0, 10, 10] [0, 0, 10, 9, 4 / 5, 0] = 900000000 / 1000000001
   \<and> accepted_matches
        (candidate_matches [[600000000 / 1000000001, 900000000 / 1000000001]] [[0, 0, 0, 10, 10]]
           [[0, 0, 10, 6, 9 / 10, 0], [0, 0, 10, 9, 4 / 5, 0]] (1 / 2))
       = [(0, 0, 600000000 / 1000000001)]
   \<and> compute_metric [[0, 0, 10, 6, 9 / 10, 0], [0, 0, 10, 9, 4 / 5, 0]] [[0, 0, 0, 10, 10]] [1 / 2] None
       = [[True], [False]]"
proof -
  have s0: "box_similarity [0, 0, 0, 10, 10] [0, 0, 10, 6, 9 / 10, 0] = 600000000 / 1000000001"
    by (simp add: box_similarity_def clamp0_def)
  have s1: "box_similarity [0, 0, 0, 10, 10] [0, 0, 10, 9, 4 / 5, 0] = 900000000 / 1000000001"
    by (simp add: box_similarity_def clamp0_def)
  have cand: "candidate_matches [[600000000 / 1000000001, 900000000 / 1000000001]] [[0, 0, 0, 10, 10]]
           [[0, 0, 10, 6, 9 / 10, 0], [0, 0, 10, 9, 4 / 5, 0]] (1 / 2)
        = [(0, 0, 600000000 / 1000000001), (0, Suc 0, 900000000 / 1000000001)]"
    by (simp add: candidate_matches_def upt_rec)
  have acc: "accepted_matches [(0, 0, 600000000 / 1000000001), (0, Suc 0, 900000000 / 1000000001)]
        = [(0, 0, 600000000 / 1000000001)]"
    by (simp add: accepted_matches_def argsort_def take_rows_def unique_index_def first_index_def upt_rec)
  have "compute_metric [[0, 0, 10, 6, 9 / 10, 0], [0, 0, 10, 9, 4 / 5, 0]] [[0, 0, 0, 10, 10]] [1 / 2] None
       = [[True], [False]]"
    by (simp add: compute_metric_def compute_metric_from_def s0 s1 cand acc mark_correct_def)
  then show ?thesis using s0 s1 cand acc by simp
qed

end
